theory Spec2Isabelle
  imports Complex_Main
begin

section \<open>Data model\<close>

text \<open>
  The simulator of \<^verbatim>\<open>MAIN.cpp\<close> works on C++ \<^verbatim>\<open>double\<close>s. They are modelled as
  \<^typ>\<open>real\<close>: arithmetic is exact, and NaN, the infinities and rounding are outside the
  model. A \<^verbatim>\<open>std::vector<std::pair<double, double>>\<close> is a list of pairs
  (price first, size second), a \<^verbatim>\<open>std::deque<OrderBook>\<close> is a list whose head is the
  front of the deque.
\<close>

type_synonym level = "real \<times> real"

record OrderBook =
  symbol :: string
  asks :: "level list"
  bids :: "level list"
  timestamp :: nat

record SimulationResults =
  slippage :: real
  fees :: real
  marketImpact :: real
  netCost :: real
  makerTakerRatio :: real
  latency :: real

text \<open>A default-constructed \<^verbatim>\<open>OrderBook\<close>: empty string, empty vectors, the clock's epoch.\<close>

definition OrderBook_default :: OrderBook where
  "OrderBook_default = \<lparr>symbol = [], asks = [], bids = [], timestamp = 0\<rparr>"

text \<open>A default-constructed \<^verbatim>\<open>SimulationResults\<close>: every member initialiser is \<^verbatim>\<open>0.0\<close>.\<close>

definition SimulationResults_default :: SimulationResults where
  "SimulationResults_default =
     \<lparr>slippage = 0, fees = 0, marketImpact = 0, netCost = 0, makerTakerRatio = 0, latency = 0\<rparr>"

text \<open>
  The global variables of the program that the simulator and the feed handler touch, and the
  log file, which \<^verbatim>\<open>Logger::Log\<close> opens in append mode. A log line is kept as its level
  and its message; the wall-clock stamp \<^verbatim>\<open>Logger::Log\<close> puts between them is left out.
\<close>

record world =
  orderBookHistory :: "OrderBook list"
  currentResults :: SimulationResults
  logFile :: "(string \<times> string) list"

text \<open>
  What can interrupt a function body: a C++ exception derived from \<^verbatim>\<open>std::exception\<close>
  (kept with its \<^verbatim>\<open>what()\<close> text), or a read outside a vector, which in C++ is undefined
  behaviour and is caught by no handler.
\<close>

datatype error = std_exception string | out_of_range_access

text \<open>
  Configuration macros (\<^verbatim>\<open>config.h\<close>): the arguments the worker thread passes to
  \<^verbatim>\<open>SimulateTrade\<close>, and the capacity of the history.
\<close>

definition CONFIG_DEFAULT_QUANTITY :: real where
  "CONFIG_DEFAULT_QUANTITY = 100"

definition CONFIG_DEFAULT_VOLATILITY :: real where
  "CONFIG_DEFAULT_VOLATILITY = 2 / 100"

definition CONFIG_DEFAULT_FEE_TIER :: real where
  "CONFIG_DEFAULT_FEE_TIER = 1 / 1000"

definition CONFIG_MAX_HISTORY :: nat where
  "CONFIG_MAX_HISTORY = 1000"

section \<open>Logging\<close>

definition Log :: "string \<Rightarrow> string \<Rightarrow> world \<Rightarrow> world" where
  "Log message lvl w = w\<lparr>logFile := logFile w @ [(lvl, message)]\<rparr>"

definition HandleException :: "string \<Rightarrow> string \<Rightarrow> world \<Rightarrow> world" where
  "HandleException what ctxt w = Log (ctxt @ '': '' @ what) ''ERROR'' w"

section \<open>TradeSimulator\<close>

definition ValidateInputs :: "real \<Rightarrow> real \<Rightarrow> real \<Rightarrow> error + unit" where
  "ValidateInputs quantity volatility feeTier =
     (if quantity \<le> 0 then Inl (std_exception ''Quantity must be positive'')
      else if volatility < 0 then Inl (std_exception ''Volatility cannot be negative'')
      else if feeTier < 0 \<or> feeTier > 1
        then Inl (std_exception ''Fee tier must be between 0 and 1'')
      else Inr ())"

text \<open>
  The \<^verbatim>\<open>for\<close> loop of \<^verbatim>\<open>CalculateSlippage\<close> over \<^verbatim>\<open>book.asks\<close>, with its two
  accumulators \<^verbatim>\<open>filled\<close> and \<^verbatim>\<open>cost\<close>; it returns the final \<^verbatim>\<open>cost\<close>. The
  \<^verbatim>\<open>break\<close> is the branch that does not recurse.
\<close>

fun CalculateSlippage_loop :: "real \<Rightarrow> real \<Rightarrow> real \<Rightarrow> level list \<Rightarrow> real" where
  "CalculateSlippage_loop orderQty filled cost [] = cost"
| "CalculateSlippage_loop orderQty filled cost (ask # rest) =
     (let price = fst ask;
          size = snd ask;
          take = min (orderQty - filled) size;
          cost' = cost + take * price;
          filled' = filled + take
      in if filled' \<ge> orderQty then cost'
         else CalculateSlippage_loop orderQty filled' cost' rest)"

text \<open>
  \<^verbatim>\<open>book.bids[0]\<close> is read before the loop; on an empty vector the read is out of range,
  which is the result \<open>None\<close> here.
\<close>

definition CalculateSlippage :: "real \<Rightarrow> OrderBook \<Rightarrow> real option" where
  "CalculateSlippage orderQty book =
     (case bids book of
        [] \<Rightarrow> None
      | b # _ \<Rightarrow>
          (let initialPrice = fst b
           in Some (CalculateSlippage_loop orderQty 0 0 (asks book) / orderQty - initialPrice)))"

definition CalculateMarketImpact :: "real \<Rightarrow> real \<Rightarrow> real" where
  "CalculateMarketImpact orderQty volatility =
     (let eta = 1 / 100;
          gamma = 1 / 10000;
          timeHorizon = 1
      in eta * orderQty + gamma * orderQty * orderQty
           + volatility * sqrt orderQty / sqrt timeHorizon)"

definition PredictMakerTakerRatio :: "real \<Rightarrow> real \<Rightarrow> real" where
  "PredictMakerTakerRatio orderQty volatility =
     1 / (1 + exp (- (5 / 1000 * orderQty - 1 / 10 * volatility + 2)))"

text \<open>
  The snapshot \<^verbatim>\<open>SimulateTrade\<close> works on: the back of the history when there is one,
  a default-constructed book otherwise.
\<close>

definition currentBook_of :: "OrderBook list \<Rightarrow> OrderBook" where
  "currentBook_of history = (if history \<noteq> [] then last history else OrderBook_default)"

text \<open>
  The \<^verbatim>\<open>try\<close> block of \<^verbatim>\<open>SimulateTrade\<close>. It reads the history and writes nothing.
  \<open>elapsed\<close> is the number of whole milliseconds between the two readings of the
  high-resolution clock, which the environment supplies.
\<close>

definition SimulateTrade_try ::
  "real \<Rightarrow> real \<Rightarrow> real \<Rightarrow> int \<Rightarrow> world \<Rightarrow> error + SimulationResults" where
  "SimulateTrade_try quantity volatility feeTier elapsed w =
     (case ValidateInputs quantity volatility feeTier of
        Inl e \<Rightarrow> Inl e
      | Inr _ \<Rightarrow>
          (let results = SimulationResults_default;
               currentBook = currentBook_of (orderBookHistory w)
           in if bids currentBook = [] \<or> asks currentBook = [] then Inr results
              else
                (case CalculateSlippage quantity currentBook of
                   None \<Rightarrow> Inl out_of_range_access
                 | Some s \<Rightarrow>
                     (let results = results\<lparr>slippage := s\<rparr>;
                          results = results\<lparr>fees := quantity * feeTier\<rparr>;
                          results = results\<lparr>marketImpact :=
                                      CalculateMarketImpact quantity volatility\<rparr>;
                          results = results\<lparr>makerTakerRatio :=
                                      PredictMakerTakerRatio quantity volatility\<rparr>;
                          results = results\<lparr>netCost :=
                                      slippage results + fees results + marketImpact results\<rparr>;
                          results = results\<lparr>latency := real_of_int elapsed\<rparr>
                      in Inr results))))"

text \<open>
  \<^verbatim>\<open>SimulateTrade\<close> with its handler \<^verbatim>\<open>catch (const std::exception& e)\<close>: the exception
  is logged and a default-constructed result is returned. The result is paired with the world
  after the call.
\<close>

definition SimulateTrade ::
  "real \<Rightarrow> real \<Rightarrow> real \<Rightarrow> int \<Rightarrow> world \<Rightarrow> (error + SimulationResults) \<times> world" where
  "SimulateTrade quantity volatility feeTier elapsed w =
     (case SimulateTrade_try quantity volatility feeTier elapsed w of
        Inr results \<Rightarrow> (Inr results, w)
      | Inl (std_exception what) \<Rightarrow>
          (Inr SimulationResults_default, HandleException what ''Trade simulation error'' w)
      | Inl out_of_range_access \<Rightarrow> (Inl out_of_range_access, w))"

section \<open>The slippage rule as the specification words it\<close>

text \<open>
  The specification describes the walk with a \<open>remaining\<close> counter instead of the
  \<^verbatim>\<open>filled\<close> counter of the code: \<open>remaining = quantity\<close>, \<open>cost = 0\<close>; for each level
  take \<open>min(remaining, levelSize)\<close>, add \<open>take * levelPrice\<close> to the cost, subtract the
  take from \<open>remaining\<close>, stop when \<open>remaining \<le> 0\<close> or the levels are exhausted. These
  two definitions follow those words, to be compared with \<^verbatim>\<open>CalculateSlippage\<close>.
\<close>

fun spec_fill_cost :: "real \<Rightarrow> real \<Rightarrow> level list \<Rightarrow> real" where
  "spec_fill_cost remaining cost [] = cost"
| "spec_fill_cost remaining cost (lvl # worse) =
     (let take = min remaining (snd lvl);
          cost' = cost + take * fst lvl;
          remaining' = remaining - take
      in if remaining' \<le> 0 then cost' else spec_fill_cost remaining' cost' worse)"

definition spec_slippagePerUnit :: "real \<Rightarrow> real \<Rightarrow> level list \<Rightarrow> real" where
  "spec_slippagePerUnit quantity bestBidPrice levels =
     spec_fill_cost quantity 0 levels / quantity - bestBidPrice"

text \<open>The total visible depth of one side of the book, and the cost of taking all of it.\<close>

definition total_depth :: "level list \<Rightarrow> real" where
  "total_depth levels = sum_list (map snd levels)"

definition full_depth_cost :: "level list \<Rightarrow> real" where
  "full_depth_cost levels = sum_list (map (\<lambda>lvl. snd lvl * fst lvl) levels)"

section \<open>WebSocketHandler: the history\<close>

text \<open>
  The two deque operations \<^verbatim>\<open>ProcessData\<close> uses. \<^verbatim>\<open>pop_front\<close> on an empty deque is
  undefined behaviour in C++; here it is the result \<open>None\<close>.
\<close>

definition pop_front :: "'a list \<Rightarrow> 'a list option" where
  "pop_front d = (case d of [] \<Rightarrow> None | _ # rest \<Rightarrow> Some rest)"

definition push_back :: "'a \<Rightarrow> 'a list \<Rightarrow> 'a list" where
  "push_back x d = d @ [x]"

text \<open>
  The block of \<^verbatim>\<open>ProcessData\<close> that stores a parsed book, under the history's mutex:
  \<^verbatim>\<open>if (orderBookHistory.size() >= CONFIG_MAX_HISTORY) orderBookHistory.pop_front();\<close>
  \<^verbatim>\<open>orderBookHistory.push_back(book);\<close>
  The capacity is a parameter; the program runs it with \<^const>\<open>CONFIG_MAX_HISTORY\<close>.
\<close>

definition ProcessData_append :: "nat \<Rightarrow> OrderBook \<Rightarrow> world \<Rightarrow> world option" where
  "ProcessData_append max_history book w =
     (if length (orderBookHistory w) \<ge> max_history then
        (case pop_front (orderBookHistory w) of
           None \<Rightarrow> None
         | Some popped \<Rightarrow> Some (w\<lparr>orderBookHistory := push_back book popped\<rparr>))
      else Some (w\<lparr>orderBookHistory := push_back book (orderBookHistory w)\<rparr>))"

text \<open>A run of the feed: the books of the successive messages are stored one after another.\<close>

fun ProcessData_appends :: "nat \<Rightarrow> OrderBook list \<Rightarrow> world \<Rightarrow> world option" where
  "ProcessData_appends max_history [] w = Some w"
| "ProcessData_appends max_history (book # books) w =
     (case ProcessData_append max_history book w of
        None \<Rightarrow> None
      | Some w' \<Rightarrow> ProcessData_appends max_history books w')"

section \<open>WebSocketHandler: connecting and retrying\<close>

text \<open>
  \<^verbatim>\<open>Connect\<close> runs resolve, connect and handshake in a \<^verbatim>\<open>try\<close> block and calls
  \<^verbatim>\<open>RetryConnection\<close> from its \<^verbatim>\<open>catch\<close> handler. \<^verbatim>\<open>RetryConnection\<close> sleeps, then in a
  \<^verbatim>\<open>try\<close> block clears the resolver, closes the socket and calls \<^verbatim>\<open>Connect\<close>; its
  \<^verbatim>\<open>catch\<close> handler calls \<^verbatim>\<open>RetryConnection\<close>. The network is a script: the outcome of
  each of these input/output blocks, in the order the program runs them. The first argument is
  the number of activations of the two functions that are on the call stack at the call; the
  result is that number at the moment the handshake succeeds and \<^verbatim>\<open>StartAsyncRead\<close> has
  registered its callback, or \<open>None\<close> when the script ends with the program still retrying.
\<close>

datatype io_outcome = succeeds | throws

fun Connect :: "nat \<Rightarrow> io_outcome list \<Rightarrow> nat option"
  and RetryConnection :: "nat \<Rightarrow> io_outcome list \<Rightarrow> nat option" where
  "Connect depth [] = None"
| "Connect depth (succeeds # net) = Some (Suc depth)"
| "Connect depth (throws # net) = RetryConnection (Suc depth) net"
| "RetryConnection depth [] = None"
| "RetryConnection depth (succeeds # net) = Connect (Suc depth) net"
| "RetryConnection depth (throws # net) = RetryConnection (Suc depth) net"

text \<open>The script of \<open>n\<close> failed connection attempts, each followed by a clean close.\<close>

definition failed_attempts :: "nat \<Rightarrow> io_outcome list" where
  "failed_attempts n = concat (replicate n [throws, succeeds])"

section \<open>Example states\<close>

text \<open>The state at program start: the globals as their initialisers leave them.\<close>

definition initial_world :: world where
  "initial_world =
     \<lparr>orderBookHistory = [], currentResults = SimulationResults_default, logFile = []\<rparr>"

text \<open>The book of the unit test \<^verbatim>\<open>SlippageCalculation\<close>.\<close>

definition test_book :: OrderBook where
  "test_book =
     \<lparr>symbol = [], asks = [(101, 5), (102, 10)], bids = [(100, 10)], timestamp = 0\<rparr>"

section \<open>Market impact and maker/taker ratio\<close>

text \<open>
  C7. For every quantity \<open>q > 0\<close> and volatility \<open>v \<ge> 0\<close>, \<^verbatim>\<open>CalculateMarketImpact\<close>
  returns \<open>0.01 q + 0.0001 q\<^sup>2 + v sqrt q / sqrt 1\<close>; for \<open>q = 100\<close> and \<open>v = 0.02\<close> this
  is \<open>2.2\<close>.
\<close>

theorem CalculateMarketImpact_formula:
  assumes "0 < q" and "0 \<le> v"
  shows "CalculateMarketImpact q v = 0.01 * q + 0.0001 * q\<^sup>2 + v * sqrt q / sqrt 1.0
         \<and> CalculateMarketImpact 100.0 0.02 = 2.2"
proof -
  have s: "sqrt 100 = 10"
    by (rule real_sqrt_unique) simp_all
  have "CalculateMarketImpact q v = 0.01 * q + 0.0001 * q\<^sup>2 + v * sqrt q / sqrt 1.0"
    by (simp add: CalculateMarketImpact_def power2_eq_square)
  moreover have "CalculateMarketImpact 100.0 0.02 = 2.2"
    by (simp add: CalculateMarketImpact_def s)
  ultimately show ?thesis by simp
qed

theorem CalculateMarketImpact_formula_witness:
  "(0::real) < 4 \<and> (0::real) \<le> 1 / 2 \<and> CalculateMarketImpact 4 (1 / 2) = 1.0416"
  using CalculateMarketImpact_formula [of 4 "1 / 2"] by simp

text \<open>
  C10. For every quantity and volatility, the ratio \<^verbatim>\<open>PredictMakerTakerRatio\<close> returns,
  \<open>1 / (1 + exp (- (0.005 q - 0.1 v + 2)))\<close>, lies strictly between 0 and 1, with the real
  exponential function.
\<close>

theorem PredictMakerTakerRatio_range:
  "PredictMakerTakerRatio q v = 1 / (1 + exp (- (0.005 * q - 0.1 * v + 2)))
   \<and> 0 < PredictMakerTakerRatio q v \<and> PredictMakerTakerRatio q v < 1"
proof -
  have logistic: "0 < 1 / (1 + e) \<and> 1 / (1 + e) < 1" if "0 < e" for e :: real
    using that by simp
  have unfolded: "PredictMakerTakerRatio q v = 1 / (1 + exp (- (0.005 * q - 0.1 * v + 2)))"
    by (simp add: PredictMakerTakerRatio_def)
  have "0 < exp (- (0.005 * q - 0.1 * v + 2))"
    by (rule exp_gt_zero)
  from logistic [OF this] show ?thesis
    unfolding unfolded by blast
qed

section \<open>Facts shared by the proofs\<close>

lemma ValidateInputs_valid:
  "0 < q \<Longrightarrow> 0 \<le> v \<Longrightarrow> 0 \<le> f \<Longrightarrow> f \<le> 1 \<Longrightarrow> ValidateInputs q v f = Inr ()"
  by (simp add: ValidateInputs_def)

lemma ValidateInputs_invalid:
  "q \<le> 0 \<or> v < 0 \<or> f < 0 \<or> 1 < f \<Longrightarrow> \<exists>what. ValidateInputs q v f = Inl (std_exception what)"
  by (auto simp: ValidateInputs_def)

lemma ValidateInputs_never_out_of_range:
  "ValidateInputs q v f \<noteq> Inl out_of_range_access"
  by (simp add: ValidateInputs_def)

lemma CalculateSlippage_guarded:
  "bids book \<noteq> [] \<Longrightarrow> \<exists>s. CalculateSlippage q book = Some s"
  by (cases "bids book") (simp_all add: CalculateSlippage_def)

section \<open>Invalid arguments\<close>

text \<open>
  C1, as the program has it. For every invalid argument triple (quantity \<open>\<le> 0\<close>, or
  volatility \<open>< 0\<close>, or fee tier outside \<open>[0, 1]\<close>), \<^verbatim>\<open>ValidateInputs\<close> throws inside
  the \<^verbatim>\<open>try\<close> block of \<^verbatim>\<open>SimulateTrade\<close>, whose own handler catches the exception, logs it
  as an \<^verbatim>\<open>ERROR\<close> line and returns the default all-zero result: no error reaches the
  caller. The order-book history and the published result are exactly as before the call.
\<close>

theorem SimulateTrade_invalid_arguments:
  assumes "q \<le> 0 \<or> v < 0 \<or> f < 0 \<or> 1 < f"
  shows "\<exists>what. ValidateInputs q v f = Inl (std_exception what)
           \<and> SimulateTrade q v f elapsed w =
               (Inr SimulationResults_default,
                w\<lparr>logFile := logFile w @ [(''ERROR'', ''Trade simulation error: '' @ what)]\<rparr>)
           \<and> orderBookHistory (snd (SimulateTrade q v f elapsed w)) = orderBookHistory w
           \<and> currentResults (snd (SimulateTrade q v f elapsed w)) = currentResults w"
proof -
  from ValidateInputs_invalid [OF assms]
  obtain what where raised: "ValidateInputs q v f = Inl (std_exception what)" ..
  then have "SimulateTrade_try q v f elapsed w = Inl (std_exception what)"
    by (simp add: SimulateTrade_try_def)
  then have "SimulateTrade q v f elapsed w =
               (Inr SimulationResults_default,
                w\<lparr>logFile := logFile w @ [(''ERROR'', ''Trade simulation error: '' @ what)]\<rparr>)"
    by (simp add: SimulateTrade_def HandleException_def Log_def)
  with raised show ?thesis by simp
qed

theorem SimulateTrade_invalid_arguments_witness:
  "((0::real) \<le> 0 \<or> (1 / 50 :: real) < 0 \<or> (1 / 1000 :: real) < 0 \<or> (1::real) < 1 / 1000)
   \<and> SimulateTrade 0 (1 / 50) (1 / 1000) 0 initial_world =
        (Inr SimulationResults_default,
         initial_world\<lparr>logFile :=
           [(''ERROR'', ''Trade simulation error: Quantity must be positive'')]\<rparr>)"
  using SimulateTrade_invalid_arguments [of 0 "1 / 50" "1 / 1000" 0 initial_world]
  by (simp add: ValidateInputs_def initial_world_def)

text \<open>
  The claim as the specification words it asks for a validation error at the caller. At
  quantity \<open>0\<close>, and at fee tier \<open>1.5\<close>, the caller gets the default result instead.
\<close>

theorem SimulateTrade_invalid_arguments_counterexample:
  "fst (SimulateTrade 0 (1 / 50) (1 / 1000) 0 initial_world) = Inr SimulationResults_default
   \<and> fst (SimulateTrade 100 (1 / 50) (3 / 2) 0 initial_world) = Inr SimulationResults_default
   \<and> ValidateInputs 0 (1 / 50) (1 / 1000) = Inl (std_exception ''Quantity must be positive'')
   \<and> ValidateInputs 100 (1 / 50) (3 / 2)
       = Inl (std_exception ''Fee tier must be between 0 and 1'')"
  by (simp add: SimulateTrade_def SimulateTrade_try_def ValidateInputs_def)

section \<open>Slippage\<close>

lemma loop_is_spec_fill_cost:
  "CalculateSlippage_loop q filled cost levels = spec_fill_cost (q - filled) cost levels"
proof (induction levels arbitrary: filled cost)
  case Nil
  show ?case by simp
next
  case (Cons lvl worse)
  from Cons.IH show ?case
    by (simp add: Let_def diff_diff_eq)
qed

text \<open>
  C2. For a positive quantity, \<^verbatim>\<open>CalculateSlippage\<close> computes what the specification's walk
  over the ask side computes: at each level it takes \<open>min(remaining, levelSize)\<close> at that
  level's price, stops when the quantity is filled or the levels are exhausted, and returns
  the accumulated cost divided by the quantity, minus the best bid price. For bids
  \<open>[(100, 10)]\<close>, asks \<open>[(101, 5), (102, 10)]\<close> and quantity \<open>7\<close> the result is
  \<open>709/7 - 100\<close>, which is within \<open>0.001\<close> of \<open>1.2857\<close> and not within \<open>0.001\<close> of \<open>1.0\<close>.
\<close>

theorem CalculateSlippage_walk:
  assumes "0 < q"
  shows "CalculateSlippage q book =
           (case bids book of
              [] \<Rightarrow> None
            | best # _ \<Rightarrow> Some (spec_slippagePerUnit q (fst best) (asks book)))
         \<and> CalculateSlippage 7 test_book = Some (709 / 7 - 100)
         \<and> \<bar>(709 / 7 - 100) - 1.2857\<bar> \<le> (0.001 :: real)
         \<and> \<not> \<bar>(709 / 7 - 100) - 1.0\<bar> \<le> (0.001 :: real)"
proof -
  have walk: "CalculateSlippage q book =
        (case bids book of
           [] \<Rightarrow> None
         | best # _ \<Rightarrow> Some (spec_slippagePerUnit q (fst best) (asks book)))"
    by (simp add: CalculateSlippage_def spec_slippagePerUnit_def loop_is_spec_fill_cost
          split: list.splits)
  have example: "CalculateSlippage 7 test_book = Some (709 / 7 - 100)"
    by (simp add: CalculateSlippage_def test_book_def)
  show ?thesis
    using walk example by simp
qed

theorem CalculateSlippage_walk_witness:
  "(0::real) < 3
   \<and> CalculateSlippage 3 test_book = Some (spec_slippagePerUnit 3 100 [(101, 5), (102, 10)])
   \<and> spec_slippagePerUnit 3 100 [(101, 5), (102, 10)] = 1"
  using CalculateSlippage_walk [of 3 test_book]
  by (simp add: test_book_def spec_slippagePerUnit_def)

lemma loop_takes_everything:
  assumes "\<forall>lvl \<in> set levels. 0 \<le> snd lvl"
    and "filled + total_depth levels < q"
  shows "CalculateSlippage_loop q filled cost levels = cost + full_depth_cost levels"
  using assms
proof (induction levels arbitrary: filled cost)
  case Nil
  show ?case by (simp add: full_depth_cost_def)
next
  case (Cons lvl worse)
  from Cons.prems have nonneg: "0 \<le> snd lvl" and rest_nonneg: "\<forall>l \<in> set worse. 0 \<le> snd l"
    by simp_all
  have "0 \<le> total_depth worse"
    unfolding total_depth_def using rest_nonneg by (intro sum_list_nonneg) auto
  with Cons.prems(2) have room: "filled + snd lvl < q"
    and rest_room: "(filled + snd lvl) + total_depth worse < q"
    by (simp_all add: total_depth_def)
  from room have take: "min (q - filled) (snd lvl) = snd lvl"
    by simp
  have "CalculateSlippage_loop q filled cost (lvl # worse)
        = CalculateSlippage_loop q (filled + snd lvl) (cost + snd lvl * fst lvl) worse"
    using room by (simp add: Let_def take)
  also have "\<dots> = (cost + snd lvl * fst lvl) + full_depth_cost worse"
    by (rule Cons.IH [OF rest_nonneg rest_room])
  finally show ?case
    by (simp add: full_depth_cost_def)
qed

text \<open>
  C4, as the program has it. For every snapshot whose ask sizes are all non-negative and whose
  total visible ask depth is strictly less than the requested quantity,
  \<^verbatim>\<open>CalculateSlippage\<close> accumulates the cost of the entire ask depth and still divides by
  the full requested quantity before it subtracts the best bid.
\<close>

theorem CalculateSlippage_thin_book:
  assumes "\<forall>lvl \<in> set (asks book). 0 \<le> snd lvl"
    and "total_depth (asks book) < q"
  shows "CalculateSlippage q book =
           (case bids book of
              [] \<Rightarrow> None
            | best # _ \<Rightarrow> Some (full_depth_cost (asks book) / q - fst best))"
  using loop_takes_everything [of "asks book" 0 q 0] assms
  by (simp add: CalculateSlippage_def split: list.splits)

theorem CalculateSlippage_thin_book_witness:
  "(\<forall>lvl \<in> set (asks test_book). 0 \<le> snd lvl) = True
   \<and> total_depth (asks test_book) < 20
   \<and> CalculateSlippage 20 test_book = Some ((5 * 101 + 10 * 102) / 20 - 100)"
  using CalculateSlippage_thin_book [of test_book 20]
  by (simp add: test_book_def total_depth_def full_depth_cost_def)

text \<open>
  Without the condition on the sizes the statement fails: with a negative size at the second
  level the total depth is \<open>2 < 5\<close>, yet the first level alone fills the order and the loop
  stops there, so the cost is not that of the entire depth.
\<close>

theorem CalculateSlippage_thin_book_counterexample:
  "total_depth [(101, 10), (102, - 8)] < 5
   \<and> CalculateSlippage 5 \<lparr>symbol = [], asks = [(101, 10), (102, - 8)], bids = [(100, 1)],
        timestamp = 0\<rparr> = Some 1
   \<and> full_depth_cost [(101, 10), (102, - 8)] / 5 - 100 \<noteq> (1::real)"
  by (simp add: total_depth_def full_depth_cost_def CalculateSlippage_def)

section \<open>Results of a simulation\<close>

text \<open>
  C6. For every valid argument triple (quantity \<open>> 0\<close>, volatility \<open>\<ge> 0\<close>, fee tier in
  \<open>[0, 1]\<close>), if the history is empty, or the bid side or the ask side of the latest snapshot
  is empty, \<^verbatim>\<open>SimulateTrade\<close> returns the default all-zero result, raises no error and
  leaves the state as it was.
\<close>

theorem SimulateTrade_default_fallback:
  assumes "0 < q" and "0 \<le> v" and "0 \<le> f" and "f \<le> 1"
    and "orderBookHistory w = []
         \<or> bids (last (orderBookHistory w)) = [] \<or> asks (last (orderBookHistory w)) = []"
  shows "SimulateTrade q v f elapsed w = (Inr SimulationResults_default, w)"
proof -
  have guard: "bids (currentBook_of (orderBookHistory w)) = []
               \<or> asks (currentBook_of (orderBookHistory w)) = []"
    using assms(5) by (auto simp: currentBook_of_def OrderBook_default_def)
  have "SimulateTrade_try q v f elapsed w = Inr SimulationResults_default"
    using guard by (simp add: SimulateTrade_try_def ValidateInputs_valid [OF assms(1-4)])
  then show ?thesis
    by (simp add: SimulateTrade_def)
qed

theorem SimulateTrade_default_fallback_witness:
  "0 < CONFIG_DEFAULT_QUANTITY \<and> 0 \<le> CONFIG_DEFAULT_VOLATILITY
   \<and> 0 \<le> CONFIG_DEFAULT_FEE_TIER \<and> CONFIG_DEFAULT_FEE_TIER \<le> 1
   \<and> orderBookHistory initial_world = []
   \<and> SimulateTrade CONFIG_DEFAULT_QUANTITY CONFIG_DEFAULT_VOLATILITY CONFIG_DEFAULT_FEE_TIER 3
         initial_world
       = (Inr SimulationResults_default, initial_world)"
  using SimulateTrade_default_fallback
    [of CONFIG_DEFAULT_QUANTITY CONFIG_DEFAULT_VOLATILITY CONFIG_DEFAULT_FEE_TIER initial_world 3]
  by (simp add: initial_world_def CONFIG_DEFAULT_QUANTITY_def CONFIG_DEFAULT_VOLATILITY_def
        CONFIG_DEFAULT_FEE_TIER_def)

text \<open>
  C8. In every result \<^verbatim>\<open>SimulateTrade\<close> produces from valid inputs and a latest snapshot
  with both sides non-empty, the fees are quantity times fee tier and the net cost is
  slippage plus fees plus market impact; the maker/taker ratio is stored beside them and is
  no term of the net cost.
\<close>

theorem SimulateTrade_fees_netCost:
  assumes "0 < q" and "0 \<le> v" and "0 \<le> f" and "f \<le> 1"
    and "orderBookHistory w \<noteq> []"
    and "bids (last (orderBookHistory w)) \<noteq> []"
    and "asks (last (orderBookHistory w)) \<noteq> []"
  shows "case fst (SimulateTrade q v f elapsed w) of
           Inl e \<Rightarrow> False
         | Inr r \<Rightarrow>
             fees r = q * f
             \<and> netCost r = slippage r + fees r + marketImpact r
             \<and> CalculateSlippage q (last (orderBookHistory w)) = Some (slippage r)
             \<and> marketImpact r = CalculateMarketImpact q v
             \<and> makerTakerRatio r = PredictMakerTakerRatio q v"
proof -
  have book: "currentBook_of (orderBookHistory w) = last (orderBookHistory w)"
    using assms(5) by (simp add: currentBook_of_def)
  from CalculateSlippage_guarded [OF assms(6)]
  obtain s where s: "CalculateSlippage q (last (orderBookHistory w)) = Some s" ..
  have "SimulateTrade_try q v f elapsed w =
          Inr \<lparr>slippage = s, fees = q * f, marketImpact = CalculateMarketImpact q v,
               netCost = s + q * f + CalculateMarketImpact q v,
               makerTakerRatio = PredictMakerTakerRatio q v, latency = real_of_int elapsed\<rparr>"
    using assms(6,7)
    by (simp add: SimulateTrade_try_def ValidateInputs_valid [OF assms(1-4)] book s
          SimulationResults_default_def)
  then show ?thesis
    by (simp add: SimulateTrade_def s)
qed

theorem SimulateTrade_fees_netCost_witness:
  "(0::real) < 7 \<and> (0::real) \<le> 1 / 100 \<and> (0::real) \<le> 1 / 1000 \<and> (1 / 1000 :: real) \<le> 1
   \<and> (case fst (SimulateTrade 7 (1 / 100) (1 / 1000) 0
                   (initial_world\<lparr>orderBookHistory := [test_book]\<rparr>)) of
         Inl e \<Rightarrow> False
       | Inr r \<Rightarrow>
           fees r = 7 / 1000 \<and> slippage r = 9 / 7
           \<and> netCost r = 9 / 7 + 7 / 1000 + CalculateMarketImpact 7 (1 / 100))"
  using SimulateTrade_fees_netCost
    [of 7 "1 / 100" "1 / 1000" "initial_world\<lparr>orderBookHistory := [test_book]\<rparr>" 0]
  by (simp add: initial_world_def test_book_def CalculateSlippage_def
        split: sum.splits)

text \<open>
  C9. On every path of \<^verbatim>\<open>SimulateTrade\<close> the read of \<^verbatim>\<open>bids[0]\<close> in
  \<^verbatim>\<open>CalculateSlippage\<close> comes after the guard that both sides of the selected snapshot are
  non-empty: for every input the out-of-range branch is not taken, and past the guard the read
  has a value.
\<close>

theorem SimulateTrade_bids_read_guarded:
  "SimulateTrade_try q v f elapsed w \<noteq> Inl out_of_range_access
   \<and> fst (SimulateTrade q v f elapsed w) \<noteq> Inl out_of_range_access
   \<and> (\<not> (bids book = [] \<or> asks book = []) \<longrightarrow> CalculateSlippage q book \<noteq> None)"
proof -
  have body: "SimulateTrade_try q v f elapsed w \<noteq> Inl out_of_range_access"
  proof (cases "ValidateInputs q v f")
    case (Inl e)
    with ValidateInputs_never_out_of_range [of q v f] show ?thesis
      by (simp add: SimulateTrade_try_def)
  next
    case (Inr u)
    show ?thesis
    proof (cases "bids (currentBook_of (orderBookHistory w)) = []")
      case True
      with Inr show ?thesis by (simp add: SimulateTrade_try_def)
    next
      case False
      from CalculateSlippage_guarded [OF False]
      obtain s where "CalculateSlippage q (currentBook_of (orderBookHistory w)) = Some s" ..
      with Inr show ?thesis by (simp add: SimulateTrade_try_def Let_def)
    qed
  qed
  then have call: "fst (SimulateTrade q v f elapsed w) \<noteq> Inl out_of_range_access"
    by (auto simp: SimulateTrade_def split: sum.splits error.splits)
  have read: "\<not> (bids book = [] \<or> asks book = []) \<longrightarrow> CalculateSlippage q book \<noteq> None"
    using CalculateSlippage_guarded [of book q] by auto
  from body call read show ?thesis by blast
qed

theorem SimulateTrade_bids_read_guarded_witness:
  "SimulateTrade_try 7 (1 / 100) (1 / 1000) 0 (initial_world\<lparr>orderBookHistory := [test_book]\<rparr>)
     \<noteq> Inl out_of_range_access
   \<and> \<not> (bids test_book = [] \<or> asks test_book = [])
   \<and> CalculateSlippage 7 test_book = Some (9 / 7)"
  using SimulateTrade_bids_read_guarded
    [of 7 "1 / 100" "1 / 1000" 0 "initial_world\<lparr>orderBookHistory := [test_book]\<rparr>" test_book]
  by (simp add: test_book_def CalculateSlippage_def)

section \<open>The bounded history\<close>

lemma CONFIG_MAX_HISTORY_positive: "0 < CONFIG_MAX_HISTORY"
  by (simp add: CONFIG_MAX_HISTORY_def)

lemma ProcessData_append_window:
  assumes "0 < C" and "length (orderBookHistory w) \<le> C"
  shows "ProcessData_append C book w =
           Some (w\<lparr>orderBookHistory :=
                   drop (length (orderBookHistory w @ [book]) - C) (orderBookHistory w @ [book])\<rparr>)"
proof (cases "C \<le> length (orderBookHistory w)")
  case True
  with assms have full: "length (orderBookHistory w) = C" by simp
  with assms(1) obtain oldest rest where h: "orderBookHistory w = oldest # rest"
    by (cases "orderBookHistory w") auto
  with full show ?thesis
    by (simp add: ProcessData_append_def pop_front_def push_back_def)
next
  case False
  then show ?thesis
    by (simp add: ProcessData_append_def push_back_def)
qed

lemma ProcessData_appends_window:
  assumes "0 < C" and "length (orderBookHistory w) \<le> C"
  shows "ProcessData_appends C books w =
           Some (w\<lparr>orderBookHistory :=
                   drop (length (orderBookHistory w @ books) - C) (orderBookHistory w @ books)\<rparr>)"
  using assms(2)
proof (induction books arbitrary: w)
  case Nil
  then show ?case by simp
next
  case (Cons book books)
  let ?h = "orderBookHistory w"
  let ?w' = "w\<lparr>orderBookHistory := drop (length (?h @ [book]) - C) (?h @ [book])\<rparr>"
  have step: "ProcessData_append C book w = Some ?w'"
    by (rule ProcessData_append_window [OF assms(1) Cons.prems])
  have bound: "length (orderBookHistory ?w') \<le> C"
    using assms(1) by simp
  have window: "drop (length (orderBookHistory ?w' @ books) - C) (orderBookHistory ?w' @ books)
                = drop (length (?h @ book # books) - C) (?h @ book # books)"
  proof (cases "C \<le> length ?h")
    case True
    with Cons.prems have full: "C = length ?h" by simp
    with assms(1) obtain oldest rest where h: "?h = oldest # rest"
      by (cases ?h) auto
    from full h have C: "C = Suc (length rest)" by simp
    have "orderBookHistory ?w' = rest @ [book]"
      by (simp add: h C)
    then show ?thesis
      by (simp add: h C)
  next
    case False
    then show ?thesis by simp
  qed
  show ?case
    using Cons.IH [OF bound] step window by simp
qed
lemma last_window:
  "n < length xs \<Longrightarrow> drop n xs \<noteq> [] \<and> last (drop n xs) = last xs"
  by (simp add: last_drop)

text \<open>
  C5. With a positive capacity \<open>C\<close> (the program's is 1000), a history of at most \<open>C\<close>
  snapshots has at most \<open>C\<close> after any run of appends. An append to a full history evicts the
  oldest snapshot and puts the new one at the end, so the history is always the last \<open>C\<close>
  of the snapshots stored so far, in order. Appending \<open>C + 1\<close> snapshots to an empty history
  leaves exactly \<open>C\<close>, all but the first one, and the first one is gone when it is not
  repeated among the others. After at least one append the latest snapshot read by
  \<^verbatim>\<open>SimulateTrade\<close> is the one appended last.
\<close>

theorem history_bounded_fifo:
  assumes "0 < C" and "length (orderBookHistory w) \<le> C"
  shows "case ProcessData_appends C books w of
           None \<Rightarrow> False
         | Some w' \<Rightarrow>
             length (orderBookHistory w') \<le> C
             \<and> orderBookHistory w' =
                 drop (length (orderBookHistory w @ books) - C) (orderBookHistory w @ books)
             \<and> (books \<noteq> [] \<longrightarrow> currentBook_of (orderBookHistory w') = last books)
             \<and> (orderBookHistory w = [] \<and> length books = Suc C \<longrightarrow>
                  length (orderBookHistory w') = C \<and> orderBookHistory w' = tl books
                  \<and> (distinct books \<longrightarrow> hd books \<notin> set (orderBookHistory w')))"
proof -
  let ?all = "orderBookHistory w @ books"
  define h' where "h' = drop (length ?all - C) ?all"
  have run: "ProcessData_appends C books w = Some (w\<lparr>orderBookHistory := h'\<rparr>)"
    unfolding h'_def by (rule ProcessData_appends_window [OF assms])
  have stored: "orderBookHistory (w\<lparr>orderBookHistory := h'\<rparr>) = h'"
    by simp
  have bound: "length h' \<le> C"
    by (simp add: h'_def)
  have latest: "books \<noteq> [] \<longrightarrow> currentBook_of h' = last books"
  proof
    assume nonempty: "books \<noteq> []"
    with assms(1) have "length ?all - C < length ?all" by (cases books) simp_all
    from last_window [OF this] have "h' \<noteq> []" and "last h' = last ?all"
      unfolding h'_def by blast+
    moreover from nonempty have "last ?all = last books" by simp
    ultimately show "currentBook_of h' = last books"
      by (simp only: currentBook_of_def not_False_eq_True if_True)
  qed
  have evict: "orderBookHistory w = [] \<and> length books = Suc C \<longrightarrow>
                 length h' = C \<and> h' = tl books \<and> (distinct books \<longrightarrow> hd books \<notin> set h')"
  proof
    assume fresh: "orderBookHistory w = [] \<and> length books = Suc C"
    then obtain first rest where "books = first # rest" and "length rest = C"
      by (cases books) auto
    with fresh show "length h' = C \<and> h' = tl books \<and> (distinct books \<longrightarrow> hd books \<notin> set h')"
      by (simp add: h'_def)
  qed
  show ?thesis
    unfolding run option.case stored using bound latest evict h'_def by blast
qed
theorem history_bounded_fifo_witness:
  "(0::nat) < 2 \<and> length (orderBookHistory initial_world) \<le> 2
   \<and> (case ProcessData_appends 2 [test_book, test_book\<lparr>timestamp := 1\<rparr>, test_book\<lparr>timestamp := 2\<rparr>]
              initial_world of
         None \<Rightarrow> False
       | Some w' \<Rightarrow>
           orderBookHistory w' = [test_book\<lparr>timestamp := 1\<rparr>, test_book\<lparr>timestamp := 2\<rparr>]
           \<and> currentBook_of (orderBookHistory w') = test_book\<lparr>timestamp := 2\<rparr>
           \<and> test_book \<notin> set (orderBookHistory w'))"
  using history_bounded_fifo
    [of 2 initial_world "[test_book, test_book\<lparr>timestamp := 1\<rparr>, test_book\<lparr>timestamp := 2\<rparr>]"]
  by (simp add: initial_world_def test_book_def ProcessData_append_def pop_front_def
        push_back_def currentBook_of_def)

section \<open>Reconnecting\<close>

lemma retry_adds_two_frames:
  "Connect depth (failed_attempts n @ net) = Connect (depth + 2 * n) net"
proof (induction n arbitrary: depth)
  case 0
  show ?case by (simp add: failed_attempts_def)
next
  case (Suc n)
  have "Connect depth (failed_attempts (Suc n) @ net)
        = Connect (Suc (Suc depth)) (failed_attempts n @ net)"
    by (simp add: failed_attempts_def)
  also have "\<dots> = Connect (Suc (Suc depth) + 2 * n) net"
    by (rule Suc.IH)
  finally show ?case by simp
qed

text \<open>
  C3, as the program has it. Every retry after a transport or handshake failure is made by
  recursion: \<^verbatim>\<open>Connect\<close> calls \<^verbatim>\<open>RetryConnection\<close> from its handler, which waits and
  calls \<^verbatim>\<open>Connect\<close> again, and neither returns before the connection is made. After \<open>n\<close>
  consecutive failed attempts the attempt that succeeds runs with \<open>2 n\<close> more activations
  on the call stack than the first one.
\<close>

theorem retry_is_recursive:
  "Connect depth (failed_attempts n @ [succeeds]) = Some (depth + 2 * n + 1)"
  by (simp add: retry_adds_two_frames)

text \<open>
  The call stack grows with the number of retries: one activation when the first attempt
  succeeds, three after one failure, five after two, and a failing close in
  \<^verbatim>\<open>RetryConnection\<close> adds activations as well.
\<close>

theorem retry_is_recursive_counterexample:
  "Connect 0 [succeeds] = Some 1
   \<and> Connect 0 [throws, succeeds, succeeds] = Some 3
   \<and> Connect 0 [throws, succeeds, throws, succeeds, succeeds] = Some 5
   \<and> Connect 0 [throws, throws, throws, succeeds, succeeds] = Some 5"
  by simp

end
